theory Spec2Isabelle
  imports Main "HOL-Library.Finite_Map"
begin

section \<open>JavaScript values\<close>

text \<open>
  The data that travels between the caller, the two facades and the inherited request
  method: parsed JSON, plus \<open>undefined\<close>. An object is a finite map from property names
  to values; an Error object handed over by the request layer is an object as well (every
  object is truthy, which is all the source asks of an error). Numbers are integers: the
  source does no arithmetic.
\<close>

datatype json =
    JUndefined
  | JNull
  | JBool bool
  | JNum int
  | JStr string
  | JArr "json list"
  | JObj "(string, json) fmap"

text \<open>What \<open>if (v)\<close>, \<open>!v\<close> and \<open>v || w\<close> test.\<close>

fun truthy :: "json \<Rightarrow> bool" where
  "truthy JUndefined = False"
| "truthy JNull = False"
| "truthy (JBool b) = b"
| "truthy (JNum n) = (n \<noteq> 0)"
| "truthy (JStr s) = (s \<noteq> [])"
| "truthy (JArr xs) = True"
| "truthy (JObj m) = True"

fun typeof :: "json \<Rightarrow> string" where
  "typeof JUndefined = ''undefined''"
| "typeof JNull = ''object''"
| "typeof (JBool b) = ''boolean''"
| "typeof (JNum n) = ''number''"
| "typeof (JStr s) = ''string''"
| "typeof (JArr xs) = ''object''"
| "typeof (JObj m) = ''object''"

datatype js_error = Error string | TypeError

text \<open>\<open>a || b\<close>\<close>

definition or_else :: "json \<Rightarrow> json \<Rightarrow> json" where
  "or_else a b = (if truthy a then a else b)"

text \<open>Decimal notation of an array index, the property name of an array element.\<close>

function digits :: "nat \<Rightarrow> string" where
  "digits n =
     (if n < 10 then [char_of (48 + n)]
      else digits (n div 10) @ [char_of (48 + n mod 10)])"
  by pat_completeness auto
termination
  by (relation "measure (\<lambda>n. n)") auto

text \<open>
  The own enumerable properties of a value, which \<open>Object.assign\<close> copies: the entries of
  an object, the elements of an array and the characters of a string under their indices,
  nothing for \<open>undefined\<close>, \<open>null\<close>, a number or a boolean.
\<close>

fun props :: "json \<Rightarrow> (string, json) fmap" where
  "props (JObj m) = m"
| "props (JArr xs) = fmap_of_list (zip (map digits [0..<length xs]) xs)"
| "props (JStr s) = fmap_of_list (zip (map digits [0..<length s]) (map (\<lambda>c. JStr [c]) s))"
| "props v = fmempty"

text \<open>\<open>Object.assign(target, ...sources)\<close>: later sources override earlier ones.\<close>

definition Object_assign :: "(string, json) fmap \<Rightarrow> json list \<Rightarrow> json" where
  "Object_assign target sources = JObj (fold (\<lambda>src tgt. tgt ++\<^sub>f props src) sources target)"

section \<open>Objects of the library\<close>

text \<open>
  The fields of a Resource that its methods read. They are set by the service base class
  from what the constructor hands it; \<open>projectId\<close> is that class's field of type string.
\<close>

record resource =
  apiEndpoint :: string
  baseUrl :: string
  projectId :: string

text \<open>The options of the constructor that reach those fields.\<close>

record ClientConfig =
  options_apiEndpoint :: "string option"
  options_projectId :: "string option"

record project =
  project_parent :: resource
  project_baseUrl :: string
  project_id :: json
  project_metadata :: json

record operation =
  operation_parent :: resource
  operation_id :: json
  operation_metadata :: json

text \<open>
  A function value is \<open>util.noop\<close> or a function of the caller, known by a number; what
  the caller's function does when called is its own business, the call is recorded. What
  a caller passes to a method is data or a function; what a callback receives is data, a
  Project, an Operation or an array of Projects.
\<close>

datatype fn = util_noop | user_fn nat

datatype jsarg = Val json | Fun fn

datatype cbarg = Data json | Proj project | Oper operation | Projs "project list"

fun truthy_arg :: "jsarg \<Rightarrow> bool" where
  "truthy_arg (Val v) = truthy v"
| "truthy_arg (Fun f) = True"

fun typeof_arg :: "jsarg \<Rightarrow> string" where
  "typeof_arg (Val v) = typeof v"
| "typeof_arg (Fun f) = ''function''"

text \<open>The options object in \<open>typeof x === 'object' ? x : {}\<close>.\<close>

fun object_or_empty :: "jsarg \<Rightarrow> json" where
  "object_or_empty (Val v) = (if typeof v = ''object'' then v else JObj fmempty)"
| "object_or_empty (Fun f) = JObj fmempty"

text \<open>The callback in \<open>typeof x === 'function' ? x : callback\<close>.\<close>

definition function_or :: "jsarg \<Rightarrow> jsarg \<Rightarrow> jsarg" where
  "function_or x callback = (if typeof_arg x = ''function'' then x else callback)"

section \<open>Effects\<close>

text \<open>
  The options object handed to \<open>this.request\<close>; a key the source leaves out is \<open>None\<close>.
\<close>

record reqOpts =
  "method" :: "string option"
  uri :: string
  json :: "json option"
  body :: "json option"
  qs :: "json option"

text \<open>
  What a call does is the list of its observable events, in order, and how it ends: with
  a value, or with a thrown error. The inherited \<open>request\<close> method is a parameter: for
  the options it is given it either never calls the completion handler (\<open>None\<close>) or calls
  it with a list of arguments, as the stubbed \<open>project.request\<close> of the unit tests does.
  The handler runs right after the request is issued, and an error it throws ends the
  call. The methods are modelled as the classes define them, in callback style: the
  promise wrapper and the paginator are put around them afterwards by other packages.
\<close>

datatype event = Request reqOpts | Callback nat "cbarg list"

type_synonym 'a io = "event list \<times> (js_error + 'a)"

type_synonym transport = "reqOpts \<Rightarrow> json list option"

definition return :: "'a \<Rightarrow> 'a io" where
  "return x = ([], Inr x)"

definition throw :: "js_error \<Rightarrow> 'a io" where
  "throw e = ([], Inl e)"

definition bind :: "'a io \<Rightarrow> ('a \<Rightarrow> 'b io) \<Rightarrow> 'b io" where
  "bind m f =
     (case snd m of
        Inl e \<Rightarrow> (fst m, Inl e)
      | Inr x \<Rightarrow> (fst m @ fst (f x), snd (f x)))"

text \<open>The \<open>n\<close>-th parameter of a function called with \<open>args\<close>.\<close>

definition arg :: "nat \<Rightarrow> json list \<Rightarrow> json" where
  "arg n args = (if n < length args then args ! n else JUndefined)"

text \<open>
  \<open>v.k\<close> for data: a TypeError on \<open>undefined\<close> and \<open>null\<close>, \<open>undefined\<close> for a property
  the value does not have. (Inherited methods are functions, not data, and are not read
  by the source.)
\<close>

definition lookup :: "(string, json) fmap \<Rightarrow> string \<Rightarrow> json" where
  "lookup m k = (case fmlookup m k of None \<Rightarrow> JUndefined | Some w \<Rightarrow> w)"

fun get_prop :: "json \<Rightarrow> string \<Rightarrow> json io" where
  "get_prop JUndefined k = throw TypeError"
| "get_prop JNull k = throw TypeError"
| "get_prop (JArr xs) k =
     return (if k = ''length'' then JNum (int (length xs)) else lookup (props (JArr xs)) k)"
| "get_prop (JStr s) k =
     return (if k = ''length'' then JNum (int (length s)) else lookup (props (JStr s)) k)"
| "get_prop v k = return (lookup (props v) k)"

text \<open>Calling \<open>f(...args)\<close>: \<open>util.noop\<close> does nothing, data is not callable.\<close>

fun invoke :: "jsarg \<Rightarrow> cbarg list \<Rightarrow> unit io" where
  "invoke (Fun util_noop) args = return ()"
| "invoke (Fun (user_fn n)) args = ([Callback n args], Inr ())"
| "invoke (Val v) args = throw TypeError"

definition request :: "transport \<Rightarrow> reqOpts \<Rightarrow> (json list \<Rightarrow> unit io) \<Rightarrow> unit io" where
  "request t opts handler =
     bind ([Request opts], Inr ())
       (\<lambda>_. case t opts of None \<Rightarrow> return () | Some args \<Rightarrow> handler args)"

text \<open>\<open>xs.map(f)\<close>, where \<open>f\<close> may throw: elements in order, stopping at the first error.\<close>

fun map_io :: "('a \<Rightarrow> 'b io) \<Rightarrow> 'a list \<Rightarrow> 'b list io" where
  "map_io f [] = return []"
| "map_io f (x # xs) = bind (f x) (\<lambda>y. bind (map_io f xs) (\<lambda>ys. return (y # ys)))"

text \<open>Only an array has a \<open>map\<close> method; on other data the call is a TypeError.\<close>

fun array_map :: "json \<Rightarrow> (json \<Rightarrow> 'b io) \<Rightarrow> 'b list io" where
  "array_map (JArr xs) f = map_io f xs"
| "array_map v f = throw TypeError"

section \<open>Resource\<close>

text \<open>\<open>a || b\<close> for an optional string \<open>a\<close>: a missing or empty \<open>a\<close> gives \<open>b\<close>.\<close>

definition string_or :: "string option \<Rightarrow> string \<Rightarrow> string" where
  "string_or a b = (case a of None \<Rightarrow> b | Some s \<Rightarrow> if s = [] then b else s)"

text \<open>
  \<open>new Resource(options)\<close>. The constructor defaults the endpoint, derives the base URL and
  calls the service base class of package \<open>@google-cloud/common\<close>, which keeps both and
  sets \<open>this.projectId\<close> to \<open>options.projectId\<close> or, when there is none, to the placeholder
  \<open>{{projectId}}\<close>. A Resource built without a project id therefore has a non-empty
  \<open>projectId\<close> all the same.
  Scopes and package description do not reach the methods below and are left out.
\<close>

definition Resource :: "ClientConfig \<Rightarrow> resource" where
  "Resource options =
     (let apiEndpoint = string_or (options_apiEndpoint options)
                          ''cloudresourcemanager.googleapis.com''
      in \<lparr>apiEndpoint = apiEndpoint,
          baseUrl = ''https://'' @ apiEndpoint @ ''/v1'',
          projectId = string_or (options_projectId options) ''{{projectId}}''\<rparr>)"

text \<open>
  \<open>new Operation({parent, id})\<close> and \<open>new Project(resource, id)\<close>. Both classes extend the
  service-object base class, which starts \<open>metadata\<close> as the empty object. Of what the
  Project constructor hands to the base class, the bound \<open>createMethod\<close> and the table of
  inherited methods are used by the base class only and are left out.
\<close>

definition Operation :: "resource \<Rightarrow> json \<Rightarrow> operation" where
  "Operation parent ident =
     \<lparr>operation_parent = parent, operation_id = ident, operation_metadata = JObj fmempty\<rparr>"

definition Project :: "resource \<Rightarrow> json \<Rightarrow> project" where
  "Project resource ident =
     \<lparr>project_parent = resource, project_baseUrl = ''/projects'', project_id = ident,
      project_metadata = JObj fmempty\<rparr>"

definition operation :: "resource \<Rightarrow> json \<Rightarrow> operation io" where
  "operation this name =
     (if \<not> truthy name then throw (Error ''A name must be specified for an operation.'')
      else return (Operation this name))"

definition project :: "resource \<Rightarrow> json \<Rightarrow> project io" where
  "project this ident =
     (let ident = or_else ident (JStr (projectId this))
      in if \<not> truthy ident then throw (Error ''A project ID is required.'')
         else return (Project this ident))"

definition createProject :: "resource \<Rightarrow> transport \<Rightarrow> string \<Rightarrow> jsarg \<Rightarrow> jsarg \<Rightarrow> unit io" where
  "createProject this t ident optionsOrCallback callback =
     (let options = object_or_empty optionsOrCallback;
          callback = function_or optionsOrCallback callback
      in request t
           \<lparr>method = Some ''POST'', uri = ''/projects'',
            json = Some (Object_assign fmempty
                           [options, JObj (fmupd ''projectId'' (JStr ident) fmempty)]),
            body = None, qs = None\<rparr>
           (\<lambda>args. let err = arg 0 args; resp = arg 1 args in
              if truthy err then invoke callback [Data err, Data JNull, Data resp]
              else
                bind (get_prop resp ''projectId'') (\<lambda>pid.
                bind (project this pid) (\<lambda>project.
                bind (get_prop resp ''name'') (\<lambda>name.
                bind (operation this name) (\<lambda>operation.
                invoke callback
                  [Data JNull, Proj project,
                   Oper (operation\<lparr>operation_metadata := resp\<rparr>), Data resp]))))))"

definition getProjects :: "resource \<Rightarrow> transport \<Rightarrow> jsarg \<Rightarrow> jsarg \<Rightarrow> unit io" where
  "getProjects this t optionsOrCallback callback =
     (let options = object_or_empty optionsOrCallback;
          callback = function_or optionsOrCallback callback
      in request t
           \<lparr>method = None, uri = ''/projects'', json = None, body = None, qs = Some options\<rparr>
           (\<lambda>args. let err = arg 0 args; resp = arg 1 args in
              if truthy err then invoke callback [Data err, Data JNull, Data JNull, Data resp]
              else
                bind (get_prop resp ''nextPageToken'') (\<lambda>nextPageToken.
                let nextQuery =
                      (if truthy nextPageToken
                       then Object_assign fmempty
                              [options, JObj (fmupd ''pageToken'' nextPageToken fmempty)]
                       else JUndefined)
                in
                bind (get_prop resp ''projects'') (\<lambda>ps.
                bind (array_map (or_else ps (JArr []))
                        (\<lambda>project.
                           bind (get_prop project ''projectId'') (\<lambda>pid.
                           bind (Spec2Isabelle.project this pid) (\<lambda>projectInstance.
                           return (projectInstance\<lparr>project_metadata := project\<rparr>)))))
                     (\<lambda>projects.
                invoke callback [Data JNull, Projs projects, Data nextQuery, Data resp])))))"

section \<open>Project\<close>

text \<open>The methods of a Project issue their request through the Project's own \<open>request\<close>.\<close>

definition getIamPolicy :: "transport \<Rightarrow> jsarg \<Rightarrow> jsarg \<Rightarrow> unit io" where
  "getIamPolicy t optionsOrCallback callback =
     (let options = object_or_empty optionsOrCallback;
          callback = function_or optionsOrCallback callback
      in request t
           \<lparr>method = Some ''POST'', uri = '':getIamPolicy'', json = None,
            body = Some (JObj (fmupd ''options'' options fmempty)), qs = None\<rparr>
           (\<lambda>args. invoke callback [Data (arg 0 args), Data (arg 1 args)]))"

text \<open>\<open>callback || util.noop\<close>\<close>

definition or_noop :: "jsarg \<Rightarrow> jsarg" where
  "or_noop callback = (if truthy_arg callback then callback else Fun util_noop)"

definition restore :: "transport \<Rightarrow> jsarg \<Rightarrow> unit io" where
  "restore t callback =
     (let callback = or_noop callback
      in request t
           \<lparr>method = Some ''POST'', uri = '':undelete'', json = None, body = None, qs = None\<rparr>
           (\<lambda>args. invoke callback [Data (arg 0 args), Data (arg 1 args)]))"

definition getAncestry :: "transport \<Rightarrow> jsarg \<Rightarrow> unit io" where
  "getAncestry t callback =
     (let callback = or_noop callback
      in request t
           \<lparr>method = Some ''POST'', uri = '':getAncestry'', json = None, body = None, qs = None\<rparr>
           (\<lambda>args. invoke callback [Data (arg 0 args), Data (arg 1 args)]))"

definition getEffectiveOrgPolicy :: "transport \<Rightarrow> string \<Rightarrow> jsarg \<Rightarrow> unit io" where
  "getEffectiveOrgPolicy t constraint callback =
     request t
       \<lparr>method = Some ''POST'', uri = '':getEffectiveOrgPolicy'', json = None,
        body = Some (JObj (fmupd ''constraint'' (JStr constraint) fmempty)), qs = None\<rparr>
       (\<lambda>args. invoke callback [Data (arg 0 args), Data (arg 1 args)])"

definition getOrgPolicy :: "transport \<Rightarrow> string \<Rightarrow> jsarg \<Rightarrow> unit io" where
  "getOrgPolicy t constraint callback =
     (let callback = or_noop callback
      in request t
           \<lparr>method = Some ''POST'', uri = '':getOrgPolicy'', json = None,
            body = Some (JObj (fmupd ''constraint'' (JStr constraint) fmempty)), qs = None\<rparr>
           (\<lambda>args. invoke callback [Data (arg 0 args), Data (arg 1 args)]))"

text \<open>The handler \<open>(err, constraints, ...resp) => callback(err, constraints, ...resp)\<close>.\<close>

definition getAvailableOrgPolicyConstraints :: "transport \<Rightarrow> jsarg \<Rightarrow> jsarg \<Rightarrow> unit io" where
  "getAvailableOrgPolicyConstraints t optionsOrCallback callback =
     (let options = object_or_empty optionsOrCallback;
          callback = function_or optionsOrCallback callback
      in request t
           \<lparr>method = Some ''POST'', uri = '':listAvailableOrgPolicyConstraints'', json = None,
            body = None, qs = Some options\<rparr>
           (\<lambda>args. invoke callback
                     (Data (arg 0 args) # Data (arg 1 args) # map Data (drop 2 args))))"

text \<open>
  Two request stubs of the unit tests: one that calls the completion handler with fixed
  arguments whatever the request, one that never calls it.
\<close>

definition respond :: "json list \<Rightarrow> transport" where
  "respond args = (\<lambda>opts. Some args)"

definition silent :: transport where
  "silent = (\<lambda>opts. None)"

text \<open>The requests among the events of a call.\<close>

definition requests :: "event list \<Rightarrow> reqOpts list" where
  "requests es = concat (map (\<lambda>e. case e of Request r \<Rightarrow> [r] | Callback n args \<Rightarrow> []) es)"

section \<open>Auxiliary facts\<close>

lemma bind_Inr: "bind (es, Inr x) f = (es @ fst (f x), snd (f x))"
  by (simp add: bind_def)


lemma bind_return: "bind (return x) f = f x"
  by (simp add: bind_def return_def)

lemma bind_throw: "bind (throw e) f = throw e"
  by (simp add: bind_def throw_def)

lemma request_Some: "t opts = Some args \<Longrightarrow> request t opts h = (Request opts # fst (h args), snd (h args))"
  by (simp add: request_def bind_def)

lemma request_None: "t opts = None \<Longrightarrow> request t opts h = ([Request opts], Inr ())"
  by (simp add: request_def bind_def return_def)

lemma arg_simps:
  "arg 0 (x # xs) = x" "arg 1 (x # y # ys) = y" "arg (Suc 0) (x # y # ys) = y"
  "arg n [] = JUndefined"
  by (simp_all add: arg_def)

lemma Object_assign_two:
  "Object_assign fmempty [JObj opts, JObj (fmupd k v fmempty)] = JObj (fmupd k v opts)"
  by (simp add: Object_assign_def)

lemma Resource_projectId: "projectId (Resource options) \<noteq> []"
  by (simp add: Resource_def string_or_def Let_def split: option.splits)

lemma project_truthy:
  "truthy (or_else ident (JStr (projectId this))) \<Longrightarrow>
     project this ident = ([], Inr (Project this (or_else ident (JStr (projectId this)))))"
  by (simp add: project_def return_def)

lemma project_default:
  "projectId this \<noteq> [] \<Longrightarrow>
     project this ident = ([], Inr (Project this (or_else ident (JStr (projectId this)))))"
  by (simp add: project_truthy or_else_def)



lemma requests_invoke: "requests (fst (invoke f args)) = []"
  by (cases "(f, args)" rule: invoke.cases) (simp_all add: requests_def return_def throw_def)

lemma requests_bind:
  "requests (fst (bind m f)) =
     requests (fst m) @ (case snd m of Inl e \<Rightarrow> [] | Inr x \<Rightarrow> requests (fst (f x)))"
  by (simp add: bind_def requests_def split: sum.splits)

lemma requests_get_prop: "requests (fst (get_prop v k)) = []"
  by (cases "(v, k)" rule: get_prop.cases) (simp_all add: requests_def return_def throw_def)

lemma requests_project: "requests (fst (project this ident)) = []"
  by (simp add: project_def requests_def return_def throw_def Let_def)

lemma requests_operation: "requests (fst (operation this name)) = []"
  by (simp add: operation_def requests_def return_def throw_def)

lemma requests_request:
  "(\<And>args. requests (fst (h args)) = []) \<Longrightarrow> requests (fst (request t opts h)) = [opts]"
  by (simp add: request_def requests_bind return_def split: option.splits) (simp add: requests_def)

lemma requests_createProject:
  "requests (fst (createProject this t ident (Val (JObj opts)) callback)) =
     [\<lparr>method = Some ''POST'', uri = ''/projects'',
       json = Some (JObj (fmupd ''projectId'' (JStr ident) opts)), body = None, qs = None\<rparr>]"
  unfolding createProject_def Let_def
  apply (simp add: Object_assign_two)
  apply (rule requests_request)
  apply (simp add: requests_invoke requests_bind requests_get_prop requests_project requests_operation split: sum.splits)
  done

lemma map_io_all:
  "(\<And>r. r \<in> set rs \<Longrightarrow> f r = ([], Inr (g r))) \<Longrightarrow> map_io f rs = ([], Inr (map g rs))"
  by (induction rs) (simp_all add: return_def bind_Inr)

lemma record_to_project:
  assumes "truthy (or_else (lookup m ''projectId'') (JStr (projectId this)))"
  shows "bind (get_prop (JObj m) ''projectId'') (\<lambda>pid.
           bind (project this pid) (\<lambda>projectInstance.
           return (projectInstance\<lparr>project_metadata := JObj m\<rparr>))) =
         ([], Inr ((Project this (or_else (lookup m ''projectId'') (JStr (projectId this))))
                    \<lparr>project_metadata := JObj m\<rparr>))"
  using assms by (simp add: bind_return project_truthy bind_Inr) (simp add: return_def)

text \<open>The success path of \<open>getProjects\<close>, for the two claims about it.\<close>

lemma getProjects_success:
  assumes "t \<lparr>method = None, uri = ''/projects'', json = None, body = None,
              qs = Some (JObj opts)\<rparr> = Some args"
      and "\<not> truthy (arg 0 args)"
      and "arg 1 args = JObj resp"
      and "or_else (lookup resp ''projects'') (JArr []) = JArr rs"
      and "\<forall>r \<in> set rs. \<exists>m. r = JObj m"
      and "projectId this \<noteq> []"
  shows "getProjects this t (Val (JObj opts)) (Fun (user_fn n)) =
           ([Request \<lparr>method = None, uri = ''/projects'', json = None, body = None,
                      qs = Some (JObj opts)\<rparr>,
             Callback n
               [Data JNull,
                Projs (map (\<lambda>r. (Project this (or_else (lookup (props r) ''projectId'')
                                                   (JStr (projectId this))))
                                  \<lparr>project_metadata := r\<rparr>) rs),
                Data (if truthy (lookup resp ''nextPageToken'')
                      then JObj (fmupd ''pageToken'' (lookup resp ''nextPageToken'') opts)
                      else JUndefined),
                Data (JObj resp)]],
            Inr ())"
proof -
  let ?f = "\<lambda>project. bind (get_prop project ''projectId'') (\<lambda>pid.
              bind (Spec2Isabelle.project this pid) (\<lambda>projectInstance.
              return (projectInstance\<lparr>project_metadata := project\<rparr>)))"
  let ?g = "\<lambda>r. (Project this (or_else (lookup (props r) ''projectId'') (JStr (projectId this))))
                  \<lparr>project_metadata := r\<rparr>"
  have "?f r = ([], Inr (?g r))" if "r \<in> set rs" for r
  proof -
    from that assms(5) obtain m where m: "r = JObj m"
      by blast
    have "truthy (or_else (lookup m ''projectId'') (JStr (projectId this)))"
      using assms(6) by (simp add: or_else_def)
    then show ?thesis
      unfolding m using record_to_project by simp
  qed
  then have "map_io ?f rs = ([], Inr (map ?g rs))"
    by (rule map_io_all)
  then have "array_map (or_else (lookup resp ''projects'') (JArr [])) ?f = ([], Inr (map ?g rs))"
    by (simp add: assms(4))
  then show ?thesis
    using assms(1-3)
    by (simp add: getProjects_def function_or_def request_Some Let_def bind_return
        Object_assign_two bind_Inr)
qed

section \<open>Claims\<close>




text \<open>
  C2. Whenever \<open>createProject\<close> completes with an error, the callback is invoked once, with
  the error as first argument, \<open>null\<close> for the project, and the raw response; no Project
  and no Operation is built or passed. This holds with and without an options object.
\<close>

theorem createProject_error:
  "(t \<lparr>method = Some ''POST'', uri = ''/projects'',
        json = Some (JObj (fmupd ''projectId'' (JStr ident) opts)),
        body = None, qs = None\<rparr> = Some args \<and> truthy (arg 0 args) \<longrightarrow>
      createProject this t ident (Val (JObj opts)) (Fun (user_fn n)) =
        ([Request \<lparr>method = Some ''POST'', uri = ''/projects'',
                   json = Some (JObj (fmupd ''projectId'' (JStr ident) opts)),
                   body = None, qs = None\<rparr>,
          Callback n [Data (arg 0 args), Data JNull, Data (arg 1 args)]],
         Inr ()))
   \<and> (t \<lparr>method = Some ''POST'', uri = ''/projects'',
        json = Some (JObj (fmupd ''projectId'' (JStr ident) fmempty)),
        body = None, qs = None\<rparr> = Some args \<and> truthy (arg 0 args) \<longrightarrow>
      createProject this t ident (Fun (user_fn n)) (Val JUndefined) =
        ([Request \<lparr>method = Some ''POST'', uri = ''/projects'',
                   json = Some (JObj (fmupd ''projectId'' (JStr ident) fmempty)),
                   body = None, qs = None\<rparr>,
          Callback n [Data (arg 0 args), Data JNull, Data (arg 1 args)]],
         Inr ()))"
  by (simp add: createProject_def function_or_def Object_assign_two Object_assign_def
      request_Some)

text \<open>The server refuses a project id that exists already.\<close>

theorem createProject_error_witness:
  "createProject (Resource \<lparr>options_apiEndpoint = None, options_projectId = None\<rparr>)
     (respond [JObj (fmupd ''code'' (JNum 409) fmempty),
               JObj (fmupd ''error'' (JStr ''ALREADY_EXISTS'') fmempty)])
     ''new-project-id'' (Val (JObj fmempty)) (Fun (user_fn 0)) =
   ([Request \<lparr>method = Some ''POST'', uri = ''/projects'',
              json = Some (JObj (fmupd ''projectId'' (JStr ''new-project-id'') fmempty)),
              body = None, qs = None\<rparr>,
     Callback 0
       [Data (JObj (fmupd ''code'' (JNum 409) fmempty)), Data JNull,
        Data (JObj (fmupd ''error'' (JStr ''ALREADY_EXISTS'') fmempty))]],
    Inr ())"
  using createProject_error
    [where t = "respond [JObj (fmupd ''code'' (JNum 409) fmempty),
                         JObj (fmupd ''error'' (JStr ''ALREADY_EXISTS'') fmempty)]"
       and args = "[JObj (fmupd ''code'' (JNum 409) fmempty),
                    JObj (fmupd ''error'' (JStr ''ALREADY_EXISTS'') fmempty)]"
       and opts = fmempty and n = 0 and ident = "''new-project-id''"
       and this = "Resource \<lparr>options_apiEndpoint = None, options_projectId = None\<rparr>"]
  by (simp add: respond_def arg_simps)

text \<open>
  C3. Let \<open>getProjects(options, callback)\<close> complete without error with a response object
  whose \<open>projects\<close> (an empty array when the field is missing) are objects, on a Resource
  whose project id is not empty (as the constructor leaves it). Then the call returns
  normally and the callback is invoked exactly once, with four arguments, of which the
  third, the continuation query, is the options object with \<open>pageToken\<close> set to the
  response's \<open>nextPageToken\<close> when the response has such a token, and \<open>undefined\<close> (not an
  empty object) when it has none. A token counts as present as \<open>if (resp.nextPageToken)\<close>
  tests it: a missing, \<open>null\<close> or empty token is none.
\<close>

theorem getProjects_nextQuery:
  assumes "t \<lparr>method = None, uri = ''/projects'', json = None, body = None,
              qs = Some (JObj opts)\<rparr> = Some args"
      and "\<not> truthy (arg 0 args)"
      and "arg 1 args = JObj resp"
      and "or_else (lookup resp ''projects'') (JArr []) = JArr rs"
      and "\<forall>r \<in> set rs. \<exists>m. r = JObj m"
      and "projectId this \<noteq> []"
  shows "\<exists>projects.
           getProjects this t (Val (JObj opts)) (Fun (user_fn n)) =
             ([Request \<lparr>method = None, uri = ''/projects'', json = None, body = None,
                        qs = Some (JObj opts)\<rparr>,
               Callback n
                 [Data JNull, Projs projects,
                  Data (if truthy (lookup resp ''nextPageToken'')
                        then JObj (fmupd ''pageToken'' (lookup resp ''nextPageToken'') opts)
                        else JUndefined),
                  Data (JObj resp)]],
              Inr ())"
  using getProjects_success [where t = t and args = args and n = n, OF assms] by blast

text \<open>
  A first page with one more page to come, and a last page: its response has no token
  and the continuation is \<open>undefined\<close>.
\<close>

theorem getProjects_nextQuery_witness:
  "(\<exists>projects.
     getProjects (Resource \<lparr>options_apiEndpoint = None, options_projectId = None\<rparr>)
       (respond [JNull,
          JObj (fmupd ''nextPageToken'' (JStr ''page-2'')
                 (fmupd ''projects''
                    (JArr [JObj (fmupd ''projectId'' (JStr ''a-project'') fmempty)])
                    fmempty))])
       (Val (JObj (fmupd ''pageSize'' (JNum 1) fmempty))) (Fun (user_fn 0)) =
     ([Request \<lparr>method = None, uri = ''/projects'', json = None, body = None,
                qs = Some (JObj (fmupd ''pageSize'' (JNum 1) fmempty))\<rparr>,
       Callback 0
         [Data JNull, Projs projects,
          Data (JObj (fmupd ''pageToken'' (JStr ''page-2'')
                        (fmupd ''pageSize'' (JNum 1) fmempty))),
          Data (JObj (fmupd ''nextPageToken'' (JStr ''page-2'')
                 (fmupd ''projects''
                    (JArr [JObj (fmupd ''projectId'' (JStr ''a-project'') fmempty)])
                    fmempty)))]],
      Inr ()))
   \<and> (\<exists>projects.
     getProjects (Resource \<lparr>options_apiEndpoint = None, options_projectId = None\<rparr>)
       (respond [JNull,
          JObj (fmupd ''projects''
                  (JArr [JObj (fmupd ''projectId'' (JStr ''b-project'') fmempty)])
                  fmempty)])
       (Val (JObj (fmupd ''pageSize'' (JNum 1) fmempty))) (Fun (user_fn 0)) =
     ([Request \<lparr>method = None, uri = ''/projects'', json = None, body = None,
                qs = Some (JObj (fmupd ''pageSize'' (JNum 1) fmempty))\<rparr>,
       Callback 0
         [Data JNull, Projs projects, Data JUndefined,
          Data (JObj (fmupd ''projects''
                  (JArr [JObj (fmupd ''projectId'' (JStr ''b-project'') fmempty)])
                  fmempty))]],
      Inr ()))"
proof -
  let ?ra = "[JObj (fmupd ''projectId'' (JStr ''a-project'') fmempty)]"
  let ?rb = "[JObj (fmupd ''projectId'' (JStr ''b-project'') fmempty)]"
  let ?more = "fmupd ''nextPageToken'' (JStr ''page-2'') (fmupd ''projects'' (JArr ?ra) fmempty)"
  let ?last = "fmupd ''projects'' (JArr ?rb) fmempty"
  let ?res = "Resource \<lparr>options_apiEndpoint = None, options_projectId = None\<rparr>"
  let ?opts = "fmupd ''pageSize'' (JNum 1) fmempty"
  have h: "respond [JNull, JObj m] r = Some [JNull, JObj m]" for r m
    by (simp add: respond_def)
  have e: "\<not> truthy (arg 0 [JNull, JObj m])" "arg 1 [JNull, JObj m] = JObj m" for m
    by (simp_all add: arg_simps)
  have a: "or_else (lookup ?more ''projects'') (JArr []) = JArr ?ra"
    "or_else (lookup ?last ''projects'') (JArr []) = JArr ?rb"
    by (simp_all add: lookup_def or_else_def)
  have q: "\<forall>r \<in> set ?ra. \<exists>m. r = JObj m" "\<forall>r \<in> set ?rb. \<exists>m. r = JObj m"
    by simp_all
  have p: "projectId ?res \<noteq> []"
    by (rule Resource_projectId)
  show ?thesis
    using getProjects_nextQuery [where t = "respond [JNull, JObj ?more]" and n = 0
        and this = ?res and opts = ?opts, OF h e a(1) q(1) p]
      getProjects_nextQuery [where t = "respond [JNull, JObj ?last]" and n = 0
        and this = ?res and opts = ?opts, OF h e a(2) q(2) p]
    by (simp add: lookup_def)
qed

text \<open>
  C4. Called without a callback on a request layer that completes, \<open>restore\<close>,
  \<open>getOrgPolicy\<close> and \<open>getAncestry\<close> issue their request and return normally, with no
  callback invoked (the error is dropped), while \<open>getIamPolicy\<close> and
  \<open>getEffectiveOrgPolicy\<close> end in a TypeError, thrown by the completion handler when it
  calls the missing callback. \<open>restore()\<close> never throws, on any request layer, and
  \<open>restore(callback)\<close> hands error and response to the callback unchanged.
\<close>

theorem optional_callbacks:
  assumes "t \<lparr>method = Some ''POST'', uri = '':undelete'', json = None, body = None, qs = None\<rparr>
             = Some args1"
      and "t \<lparr>method = Some ''POST'', uri = '':getOrgPolicy'', json = None,
              body = Some (JObj (fmupd ''constraint'' (JStr constraint) fmempty)), qs = None\<rparr>
             = Some args2"
      and "t \<lparr>method = Some ''POST'', uri = '':getAncestry'', json = None, body = None, qs = None\<rparr>
             = Some args3"
      and "t \<lparr>method = Some ''POST'', uri = '':getIamPolicy'', json = None,
              body = Some (JObj (fmupd ''options'' (JObj fmempty) fmempty)), qs = None\<rparr>
             = Some args4"
      and "t \<lparr>method = Some ''POST'', uri = '':getEffectiveOrgPolicy'', json = None,
              body = Some (JObj (fmupd ''constraint'' (JStr constraint) fmempty)), qs = None\<rparr>
             = Some args5"
  shows "restore t (Val JUndefined) =
           ([Request \<lparr>method = Some ''POST'', uri = '':undelete'', json = None, body = None,
                      qs = None\<rparr>], Inr ())
       \<and> getOrgPolicy t constraint (Val JUndefined) =
           ([Request \<lparr>method = Some ''POST'', uri = '':getOrgPolicy'', json = None,
                      body = Some (JObj (fmupd ''constraint'' (JStr constraint) fmempty)),
                      qs = None\<rparr>], Inr ())
       \<and> getAncestry t (Val JUndefined) =
           ([Request \<lparr>method = Some ''POST'', uri = '':getAncestry'', json = None, body = None,
                      qs = None\<rparr>], Inr ())
       \<and> getIamPolicy t (Val JUndefined) (Val JUndefined) =
           ([Request \<lparr>method = Some ''POST'', uri = '':getIamPolicy'', json = None,
                      body = Some (JObj (fmupd ''options'' (JObj fmempty) fmempty)),
                      qs = None\<rparr>], Inl TypeError)
       \<and> getEffectiveOrgPolicy t constraint (Val JUndefined) =
           ([Request \<lparr>method = Some ''POST'', uri = '':getEffectiveOrgPolicy'', json = None,
                      body = Some (JObj (fmupd ''constraint'' (JStr constraint) fmempty)),
                      qs = None\<rparr>], Inl TypeError)
       \<and> snd (restore t' (Val JUndefined)) = Inr ()
       \<and> restore t (Fun (user_fn n)) =
           ([Request \<lparr>method = Some ''POST'', uri = '':undelete'', json = None, body = None,
                      qs = None\<rparr>,
             Callback n [Data (arg 0 args1), Data (arg 1 args1)]], Inr ())"
proof -
  have "snd (restore t' (Val JUndefined)) = Inr ()"
    by (cases "t' \<lparr>method = Some ''POST'', uri = '':undelete'', json = None, body = None, qs = None\<rparr>")
       (simp_all add: restore_def or_noop_def request_Some request_None return_def)
  then show ?thesis
    using assms
    by (simp add: restore_def getOrgPolicy_def getAncestry_def getIamPolicy_def
        getEffectiveOrgPolicy_def or_noop_def function_or_def request_Some return_def throw_def)
qed

text \<open>
  A request layer that fails every request with the error \<open>boom\<close>.
\<close>

theorem optional_callbacks_witness:
  "restore (respond [JStr ''boom'', JNull]) (Val JUndefined) =
     ([Request \<lparr>method = Some ''POST'', uri = '':undelete'', json = None, body = None,
                qs = None\<rparr>], Inr ())
   \<and> getIamPolicy (respond [JStr ''boom'', JNull]) (Val JUndefined) (Val JUndefined) =
     ([Request \<lparr>method = Some ''POST'', uri = '':getIamPolicy'', json = None,
                body = Some (JObj (fmupd ''options'' (JObj fmempty) fmempty)),
                qs = None\<rparr>], Inl TypeError)
   \<and> restore (respond [JStr ''boom'', JNull]) (Fun (user_fn 7)) =
     ([Request \<lparr>method = Some ''POST'', uri = '':undelete'', json = None, body = None,
                qs = None\<rparr>,
       Callback 7 [Data (JStr ''boom''), Data JNull]], Inr ())"
proof -
  have h: "respond [JStr ''boom'', JNull] r = Some [JStr ''boom'', JNull]" for r
    by (simp add: respond_def)
  show ?thesis
    using optional_callbacks
      [where t = "respond [JStr ''boom'', JNull]" and constraint = "''constraints/x''"
         and t' = silent and n = 7, OF h h h h h]
    by (simp add: arg_simps)
qed

text \<open>
  C5, amended. For every non-empty id \<open>p\<close>, \<open>resource.project(p)\<close> returns a Project of this
  Resource whose id is \<open>p\<close>, and the call has no event: no request is issued.
\<close>

theorem project_id:
  assumes "p \<noteq> []"
  shows "project this (JStr p) = ([], Inr (Project this (JStr p)))
       \<and> project_id (Project this (JStr p)) = JStr p
       \<and> project_parent (Project this (JStr p)) = this"
  using assms by (simp add: project_def or_else_def return_def Project_def)

text \<open>
  The id of the documentation's example, on a Resource built without options.
\<close>

theorem project_id_witness:
  "project (Resource \<lparr>options_apiEndpoint = None, options_projectId = None\<rparr>)
     (JStr ''grape-spaceship-123'') =
     ([], Inr (Project (Resource \<lparr>options_apiEndpoint = None, options_projectId = None\<rparr>)
                 (JStr ''grape-spaceship-123'')))"
  using project_id [of "''grape-spaceship-123''"
      "Resource \<lparr>options_apiEndpoint = None, options_projectId = None\<rparr>"]
  by simp

text \<open>
  C5 as stated fails at the empty string: on a Resource built for the project
  \<open>grape-spaceship-123\<close>, \<open>resource.project('')\<close> returns the Project of that id, not of \<open>''\<close>.
\<close>

theorem project_empty_id_counterexample:
  "project
     (Resource \<lparr>options_apiEndpoint = None, options_projectId = Some ''grape-spaceship-123''\<rparr>)
     (JStr []) =
   ([], Inr (Project
     (Resource \<lparr>options_apiEndpoint = None, options_projectId = Some ''grape-spaceship-123''\<rparr>)
     (JStr ''grape-spaceship-123'')))"
  by (simp add: project_def or_else_def return_def Resource_def string_or_def)




text \<open>
  C7. \<open>getAvailableOrgPolicyConstraints\<close> issues a POST to
  \<open>:listAvailableOrgPolicyConstraints\<close> with the options as query string, and hands the
  arguments of the completion to the callback as they are: when the request layer
  completes with \<open>(null, rawListResponse)\<close>, the callback's second argument is the raw list
  response, not the array of constraints, and no continuation query is built from
  \<open>nextPageToken\<close>.
\<close>

theorem getAvailableOrgPolicyConstraints_forwards_raw:
  "getAvailableOrgPolicyConstraints
     (respond [JNull,
        JObj (fmupd ''nextPageToken'' (JStr ''tok'')
               (fmupd ''constraints''
                  (JArr [JObj (fmupd ''name'' (JStr ''constraints/compute.x'') fmempty)])
                  fmempty))])
     (Val (JObj (fmupd ''pageSize'' (JNum 1) fmempty))) (Fun (user_fn 0)) =
   ([Request \<lparr>method = Some ''POST'', uri = '':listAvailableOrgPolicyConstraints'',
              json = None, body = None,
              qs = Some (JObj (fmupd ''pageSize'' (JNum 1) fmempty))\<rparr>,
     Callback 0
       [Data JNull,
        Data (JObj (fmupd ''nextPageToken'' (JStr ''tok'')
               (fmupd ''constraints''
                  (JArr [JObj (fmupd ''name'' (JStr ''constraints/compute.x'') fmempty)])
                  fmempty)))]],
    Inr ())"
  by (simp add: getAvailableOrgPolicyConstraints_def function_or_def request_Some respond_def
      arg_simps)

text \<open>
  C8. \<open>getIamPolicy\<close> issues one POST to \<open>:getIamPolicy\<close> with body \<open>{options}\<close>, where
  \<open>options\<close> is the object passed or \<open>{}\<close> when the callback comes first, and hands the first
  two arguments of the completion, error and policy, to the callback as they are; nothing
  else happens.
\<close>

theorem getIamPolicy_forwards:
  assumes "t \<lparr>method = Some ''POST'', uri = '':getIamPolicy'', json = None,
              body = Some (JObj (fmupd ''options'' (JObj opts) fmempty)), qs = None\<rparr> = Some args"
      and "t \<lparr>method = Some ''POST'', uri = '':getIamPolicy'', json = None,
              body = Some (JObj (fmupd ''options'' (JObj fmempty) fmempty)), qs = None\<rparr> = Some args'"
  shows "getIamPolicy t (Val (JObj opts)) (Fun (user_fn n)) =
           ([Request \<lparr>method = Some ''POST'', uri = '':getIamPolicy'', json = None,
                      body = Some (JObj (fmupd ''options'' (JObj opts) fmempty)), qs = None\<rparr>,
             Callback n [Data (arg 0 args), Data (arg 1 args)]], Inr ())
       \<and> getIamPolicy t (Fun (user_fn n)) (Val JUndefined) =
           ([Request \<lparr>method = Some ''POST'', uri = '':getIamPolicy'', json = None,
                      body = Some (JObj (fmupd ''options'' (JObj fmempty) fmempty)), qs = None\<rparr>,
             Callback n [Data (arg 0 args'), Data (arg 1 args')]], Inr ())"
  using assms by (simp add: getIamPolicy_def function_or_def request_Some)

text \<open>
  The stub of the unit test, answering with a policy.
\<close>

theorem getIamPolicy_forwards_witness:
  "getIamPolicy (respond [JNull, JObj (fmupd ''etag'' (JStr ''BwWf8AIJOb4='') fmempty)])
      (Val (JObj (fmupd ''requestedPolicyVersion'' (JNum 3) fmempty))) (Fun (user_fn 0)) =
     ([Request \<lparr>method = Some ''POST'', uri = '':getIamPolicy'', json = None,
                body = Some (JObj (fmupd ''options''
                         (JObj (fmupd ''requestedPolicyVersion'' (JNum 3) fmempty)) fmempty)),
                qs = None\<rparr>,
       Callback 0 [Data JNull, Data (JObj (fmupd ''etag'' (JStr ''BwWf8AIJOb4='') fmempty))]],
      Inr ())"
proof -
  let ?policy = "JObj (fmupd ''etag'' (JStr ''BwWf8AIJOb4='') fmempty)"
  have h: "respond [JNull, ?policy] r = Some [JNull, ?policy]" for r
    by (simp add: respond_def)
  show ?thesis
    using getIamPolicy_forwards
      [where t = "respond [JNull, ?policy]" and n = 0
         and opts = "fmupd ''requestedPolicyVersion'' (JNum 3) fmempty", OF h h]
    by (simp add: arg_simps)
qed

text \<open>
  C9. Let \<open>getProjects\<close> complete without error with a response object whose \<open>projects\<close> (an
  empty array when the field is missing) are objects, on a Resource whose project id is
  not empty (as the constructor leaves it). Then the callback receives the list that
  has, for each record and in the order of the records, the Project that
  \<open>resource.project\<close> returns for the record's \<open>projectId\<close>, with the record as its metadata.
\<close>

theorem getProjects_maps_records:
  assumes "t \<lparr>method = None, uri = ''/projects'', json = None, body = None,
              qs = Some (JObj opts)\<rparr> = Some args"
      and "\<not> truthy (arg 0 args)"
      and "arg 1 args = JObj resp"
      and "or_else (lookup resp ''projects'') (JArr []) = JArr rs"
      and "\<forall>r \<in> set rs. \<exists>m. r = JObj m"
      and "projectId this \<noteq> []"
  shows "getProjects this t (Val (JObj opts)) (Fun (user_fn n)) =
           ([Request \<lparr>method = None, uri = ''/projects'', json = None, body = None,
                      qs = Some (JObj opts)\<rparr>,
             Callback n
               [Data JNull,
                Projs (map (\<lambda>r. (Project this (or_else (lookup (props r) ''projectId'')
                                                   (JStr (projectId this))))
                                  \<lparr>project_metadata := r\<rparr>) rs),
                Data (if truthy (lookup resp ''nextPageToken'')
                      then JObj (fmupd ''pageToken'' (lookup resp ''nextPageToken'') opts)
                      else JUndefined),
                Data (JObj resp)]],
            Inr ())
       \<and> (\<forall>r \<in> set rs.
            project this (lookup (props r) ''projectId'') =
              ([], Inr (Project this (or_else (lookup (props r) ''projectId'')
                                        (JStr (projectId this))))))"
  using getProjects_success [where t = t and args = args and n = n, OF assms] assms(6)
  by (simp add: project_default)

text \<open>
  Two records, not in alphabetical order, the second without a \<open>projectId\<close>, on a Resource
  built without options.
\<close>

theorem getProjects_maps_records_witness:
  "getProjects (Resource \<lparr>options_apiEndpoint = None, options_projectId = None\<rparr>)
     (respond [JNull,
        JObj (fmupd ''projects''
                (JArr [JObj (fmupd ''projectId'' (JStr ''b-project'') fmempty),
                       JObj (fmupd ''name'' (JStr ''A project'') fmempty)])
                fmempty)])
     (Val (JObj fmempty)) (Fun (user_fn 0)) =
   ([Request \<lparr>method = None, uri = ''/projects'', json = None, body = None,
              qs = Some (JObj fmempty)\<rparr>,
     Callback 0
       [Data JNull,
        Projs
          [(Project (Resource \<lparr>options_apiEndpoint = None, options_projectId = None\<rparr>)
              (JStr ''b-project''))
             \<lparr>project_metadata := JObj (fmupd ''projectId'' (JStr ''b-project'') fmempty)\<rparr>,
           (Project (Resource \<lparr>options_apiEndpoint = None, options_projectId = None\<rparr>)
              (JStr ''{{projectId}}''))
             \<lparr>project_metadata := JObj (fmupd ''name'' (JStr ''A project'') fmempty)\<rparr>],
        Data JUndefined,
        Data (JObj (fmupd ''projects''
                (JArr [JObj (fmupd ''projectId'' (JStr ''b-project'') fmempty),
                       JObj (fmupd ''name'' (JStr ''A project'') fmempty)])
                fmempty))]],
    Inr ())"
proof -
  let ?rs = "[JObj (fmupd ''projectId'' (JStr ''b-project'') fmempty),
              JObj (fmupd ''name'' (JStr ''A project'') fmempty)]"
  let ?resp = "fmupd ''projects'' (JArr ?rs) fmempty"
  let ?res = "Resource \<lparr>options_apiEndpoint = None, options_projectId = None\<rparr>"
  have h: "respond [JNull, JObj ?resp] r = Some [JNull, JObj ?resp]" for r
    by (simp add: respond_def)
  have e: "\<not> truthy (arg 0 [JNull, JObj ?resp])" "arg 1 [JNull, JObj ?resp] = JObj ?resp"
    by (simp_all add: arg_simps)
  have a: "or_else (lookup ?resp ''projects'') (JArr []) = JArr ?rs"
    by (simp add: lookup_def or_else_def)
  have q: "\<forall>r \<in> set ?rs. \<exists>m. r = JObj m"
    by simp
  have p: "projectId ?res \<noteq> []"
    by (rule Resource_projectId)
  show ?thesis
    using getProjects_maps_records [where t = "respond [JNull, JObj ?resp]" and n = 0
        and this = ?res and opts = fmempty, OF h e a q p]
    by (simp add: lookup_def or_else_def Resource_def string_or_def)
qed

text \<open>
  C10. When the options object of \<open>createProject(id, options)\<close> has a \<open>projectId\<close> field of
  its own, the call issues exactly one request and the \<open>projectId\<close> of its JSON body is the
  \<open>id\<close> argument, whatever \<open>options.projectId\<close> was, whatever the request layer answers and
  whatever the callback is.
\<close>

theorem createProject_id_overrides_options:
  assumes "fmlookup opts ''projectId'' = Some v"
  shows "map (\<lambda>r. map_option (\<lambda>b. lookup (props b) ''projectId'') (json r))
           (requests (fst (createProject this t ident (Val (JObj opts)) callback)))
         = [Some (JStr ident)]"
  by (simp add: requests_createProject lookup_def)

text \<open>
  Options that carry another \<open>projectId\<close>, on a request layer that never answers.
\<close>

theorem createProject_id_overrides_options_witness:
  "map (\<lambda>r. map_option (\<lambda>b. lookup (props b) ''projectId'') (json r))
     (requests (fst (createProject
        (Resource \<lparr>options_apiEndpoint = None, options_projectId = None\<rparr>)
        silent ''new-project-id''
        (Val (JObj (fmupd ''projectId'' (JStr ''other-id'') fmempty))) (Fun (user_fn 0)))))
   = [Some (JStr ''new-project-id'')]"
  using createProject_id_overrides_options
    [where opts = "fmupd ''projectId'' (JStr ''other-id'') fmempty" and v = "JStr ''other-id''"
       and ident = "''new-project-id''" and t = silent and callback = "Fun (user_fn 0)"]
  by simp

end
